theory Spec2Isabelle
  imports Complex_Main "HOL-Library.Sublist"
begin

section \<open>JavaScript values\<close>

text \<open>
  The application state store (\<^verbatim>\<open>src/hooks/useAppState.tsx\<close>) is TypeScript, whose types
  are erased when the program runs. Two of its paths receive values that nothing has checked
  against the declared type: \<^verbatim>\<open>importData\<close> (its argument is the result of
  \<^verbatim>\<open>JSON.parse\<close> on a user's file) and the start-up load from \<^verbatim>\<open>localStorage\<close>.
  These paths are modelled on untyped JavaScript values. The other operations are modelled on
  the declared types (section "The typed application state").

  A JavaScript number is an IEEE double. Only its tag (\<^verbatim>\<open>typeof\<close>) and its truthiness are
  ever inspected by the store, so a number is a rational, an infinity or NaN; negative zero is
  not told apart from zero. An object is the map of its own properties; the order of its keys
  and the members it inherits from \<^verbatim>\<open>Object.prototype\<close> are not modelled (the store reads
  data properties only). A string is a list of characters.
\<close>

datatype jsnum = NaN | PosInfinity | NegInfinity | Finite rat

datatype jsval =
    JUndefined
  | JNull
  | JBool bool
  | JNum jsnum
  | JStr string
  | JArr "jsval list"
  | JObj "string \<Rightarrow> jsval option"

text \<open>The exceptions that the modelled code can meet.\<close>

datatype error = TypeError | SyntaxError | SecurityError

text \<open>\<^verbatim>\<open>ToBoolean\<close>: what \<^verbatim>\<open>&&\<close>, \<^verbatim>\<open>||\<close> and \<^verbatim>\<open>if\<close> test.\<close>

fun truthy :: "jsval \<Rightarrow> bool" where
  "truthy JUndefined = False"
| "truthy JNull = False"
| "truthy (JBool b) = b"
| "truthy (JNum n) = (n \<noteq> NaN \<and> n \<noteq> Finite 0)"
| "truthy (JStr s) = (s \<noteq> [])"
| "truthy (JArr xs) = True"
| "truthy (JObj m) = True"

fun typeof :: "jsval \<Rightarrow> string" where
  "typeof JUndefined = ''undefined''"
| "typeof JNull = ''object''"
| "typeof (JBool b) = ''boolean''"
| "typeof (JNum n) = ''number''"
| "typeof (JStr s) = ''string''"
| "typeof (JArr xs) = ''object''"
| "typeof (JObj m) = ''object''"

subsection \<open>Decimal strings\<close>

text \<open>
  \<^verbatim>\<open>Number.prototype.toString\<close> on an integer below \<^verbatim>\<open>1e21\<close> in magnitude, which is
  what \<^verbatim>\<open>Date.now().toString()\<close> and the index keys of an array are. \<open>digitChar\<close> is
  only applied to a digit below ten.
\<close>

definition digitChar :: "nat \<Rightarrow> char" where
  "digitChar d = ''0123456789'' ! d"

fun natToString :: "nat \<Rightarrow> string" where
  "natToString n =
     (if n < 10 then [digitChar n] else natToString (n div 10) @ [digitChar (n mod 10)])"

declare natToString.simps [simp del]

definition toString :: "int \<Rightarrow> string" where
  "toString i = (if i < 0 then CHR ''-'' # natToString (nat (- i)) else natToString (nat i))"

subsection \<open>Property access and object spread\<close>

text \<open>The index properties of an array, keyed by the decimal strings of the indices.\<close>

definition arrayProps :: "jsval list \<Rightarrow> string \<Rightarrow> jsval option" where
  "arrayProps xs = map_of (zip (map natToString [0..<length xs]) xs)"

definition stringProps :: "string \<Rightarrow> string \<Rightarrow> jsval option" where
  "stringProps s = arrayProps (map (\<lambda>c. JStr [c]) s)"

text \<open>
  The own enumerable properties of a value: what \<^verbatim>\<open>{...v}\<close> copies. Spreading
  \<^verbatim>\<open>null\<close>, \<^verbatim>\<open>undefined\<close>, a number or a boolean copies nothing.
\<close>

fun ownProps :: "jsval \<Rightarrow> string \<Rightarrow> jsval option" where
  "ownProps (JObj m) = m"
| "ownProps (JArr xs) = arrayProps xs"
| "ownProps (JStr s) = stringProps s"
| "ownProps v = Map.empty"

text \<open>Whether \<open>k\<close> is an own property of the value (\<^verbatim>\<open>length\<close> is one, not enumerable).\<close>

fun hasOwn :: "jsval \<Rightarrow> string \<Rightarrow> bool" where
  "hasOwn (JArr xs) k = (k = ''length'' \<or> arrayProps xs k \<noteq> None)"
| "hasOwn (JStr s) k = (k = ''length'' \<or> stringProps s k \<noteq> None)"
| "hasOwn v k = (ownProps v k \<noteq> None)"

definition lookup :: "(string \<Rightarrow> jsval option) \<Rightarrow> string \<Rightarrow> jsval" where
  "lookup m k = (case m k of Some v \<Rightarrow> v | None \<Rightarrow> JUndefined)"

text \<open>
  \<^verbatim>\<open>v.k\<close> and \<^verbatim>\<open>v[k]\<close>: a \<^verbatim>\<open>TypeError\<close> on \<^verbatim>\<open>null\<close> and \<^verbatim>\<open>undefined\<close>,
  \<^verbatim>\<open>undefined\<close> for a property that is absent.
\<close>

fun get_prop :: "jsval \<Rightarrow> string \<Rightarrow> error + jsval" where
  "get_prop JUndefined k = Inl TypeError"
| "get_prop JNull k = Inl TypeError"
| "get_prop (JArr xs) k =
     Inr (if k = ''length'' then JNum (Finite (of_nat (length xs))) else lookup (arrayProps xs) k)"
| "get_prop (JStr s) k =
     Inr (if k = ''length'' then JNum (Finite (of_nat (length s))) else lookup (stringProps s) k)"
| "get_prop v k = Inr (lookup (ownProps v) k)"

text \<open>
  The value that reading \<open>k\<close> yields, \<^verbatim>\<open>undefined\<close> where the read throws (\<^verbatim>\<open>v?.k\<close>).
  It is used to state properties, not by the code.
\<close>

definition read_prop :: "jsval \<Rightarrow> string \<Rightarrow> jsval" where
  "read_prop v k = (case get_prop v k of Inl e \<Rightarrow> JUndefined | Inr x \<Rightarrow> x)"

section \<open>The store\<close>

text \<open>
  The provider component holds \<^verbatim>\<open>appState\<close> and \<^verbatim>\<open>isInitialized\<close> as React state.
  \<open>writes\<close> records, oldest first, each state handed to
  \<^verbatim>\<open>localStorage.setItem('calorieTrackerState', JSON.stringify(appState))\<close>; an exception
  of that call is caught and logged by the code, so a write is an attempt. The store is
  polymorphic in the state: the declared type for the typed operations, a JavaScript value
  for the unchecked paths.
\<close>

record 'a store =
  appState :: 'a
  isInitialized :: bool
  writes :: "'a list"

text \<open>
  The persistence effect (lines 69-77), with dependencies \<^verbatim>\<open>[appState, isInitialized]\<close>:
  React runs it after a render in which one of them is a different object or value.
\<close>

definition persistEffect :: "'a store \<Rightarrow> 'a store" where
  "persistEffect s = (if isInitialized s then s\<lparr>writes := writes s @ [appState s]\<rparr> else s)"

text \<open>
  React compares states with \<^verbatim>\<open>Object.is\<close>, so what matters of an object is whether it is
  the one already at hand. \<open>'a returned\<close> is an object relative to a reference object: the
  reference object itself, or another object, of the given content. For the result of an
  updater function the reference is its argument (\<^verbatim>\<open>return prev\<close>); for a value that a
  consumer passes to the store it is the state object that the store holds, which is the
  \<^verbatim>\<open>appState\<close> the consumer reads.
\<close>

datatype 'a returned = SameObject | NewObject 'a

fun contentOf :: "'a returned \<Rightarrow> 'a \<Rightarrow> 'a" where
  "contentOf SameObject reference = reference"
| "contentOf (NewObject v) reference = v"

text \<open>The argument of \<^verbatim>\<open>setAppState\<close>: a state, or an updater function.\<close>

datatype 'a action = StateValue "'a returned" | StateUpdater "'a \<Rightarrow> 'a returned"

text \<open>
  React queues the actions of one event handler and applies them in order at the next
  render. \<open>pending held acts cur\<close> is the state after the queue \<open>acts\<close>, relative to the
  state object \<open>held\<close> of the last render, when the state before the queue is \<open>cur\<close>.
\<close>

fun pending :: "'a \<Rightarrow> 'a action list \<Rightarrow> 'a returned \<Rightarrow> 'a returned" where
  "pending held [] cur = cur"
| "pending held (StateValue x # acts) cur = pending held acts x"
| "pending held (StateUpdater f # acts) cur =
     pending held acts
       (case f (contentOf cur held) of SameObject \<Rightarrow> cur | NewObject v \<Rightarrow> NewObject v)"

text \<open>
  An event handler that makes the given calls of \<^verbatim>\<open>setAppState\<close>, and the render after
  it. Where the resulting state is the object of the last render, nothing is rendered again
  and no effect runs; otherwise the state is replaced and the persistence effect runs, once.
\<close>

definition handler :: "'a action list \<Rightarrow> 'a store \<Rightarrow> 'a store" where
  "handler acts s =
     (case pending (appState s) acts SameObject of
        SameObject \<Rightarrow> s
      | NewObject v \<Rightarrow> persistEffect (s\<lparr>appState := v\<rparr>))"

text \<open>
  A call of \<^verbatim>\<open>setAppState\<close> that is the only one of its event handler, as each call in
  this repository is (one store operation per user action; \<^verbatim>\<open>handleImport\<close> in
  \<^verbatim>\<open>src/App.tsx\<close> calls \<^verbatim>\<open>importData\<close> and nothing else of the store).
\<close>

definition setAppState :: "'a action \<Rightarrow> 'a store \<Rightarrow> 'a store" where
  "setAppState a s = handler [a] s"

text \<open>Lines 79-81: \<^verbatim>\<open>updateState(updater)\<close> is \<^verbatim>\<open>setAppState(updater)\<close>.\<close>

definition updateState :: "('a \<Rightarrow> 'a returned) \<Rightarrow> 'a store \<Rightarrow> 'a store" where
  "updateState updater s = setAppState (StateUpdater updater) s"

subsection \<open>importData\<close>

text \<open>
  Lines 157-163. The argument is declared \<^verbatim>\<open>AppState\<close> and is not checked against
  it. \<open>newState\<close> is the object passed, relative to the state object that the store holds:
  \<open>NewObject c\<close> for an object of content \<open>c\<close> such as \<^verbatim>\<open>JSON.parse\<close> gives the caller,
  \<open>SameObject\<close> for \<^verbatim>\<open>importData(appState)\<close>. \<^verbatim>\<open>&&\<close> evaluates its right operand only
  when the left one is truthy.
\<close>

definition importData ::
  "jsval returned \<Rightarrow> jsval store \<Rightarrow> error + (bool \<times> jsval store)"
where
  "importData newState s =
     (let candidate = contentOf newState (appState s)
      in if \<not> truthy candidate then Inr (False, s)
         else
           (case get_prop candidate ''logs'' of
              Inl e \<Rightarrow> Inl e
            | Inr l \<Rightarrow>
                (if \<not> truthy l then Inr (False, s)
                 else
                   (case get_prop candidate ''dailyGoal'' of
                      Inl e \<Rightarrow> Inl e
                    | Inr g \<Rightarrow>
                        (if typeof g = ''number''
                         then Inr (True, setAppState (StateValue newState) s)
                         else Inr (False, s))))))"

text \<open>
  The payload that the specification calls well-formed: an object that contains a
  \<^verbatim>\<open>logs\<close> mapping and a numeric \<^verbatim>\<open>dailyGoal\<close>.
\<close>

fun isMapping :: "jsval \<Rightarrow> bool" where
  "isMapping (JObj m) = True"
| "isMapping v = False"

fun isNumeric :: "jsval \<Rightarrow> bool" where
  "isNumeric (JNum n) = True"
| "isNumeric v = False"

definition wellFormedPayload :: "jsval \<Rightarrow> bool" where
  "wellFormedPayload c =
     (isMapping c \<and> isMapping (lookup (ownProps c) ''logs'') \<and>
      isNumeric (lookup (ownProps c) ''dailyGoal''))"

text \<open>The condition of line 158, on the values that the two reads yield.\<close>

definition passesValidation :: "jsval \<Rightarrow> bool" where
  "passesValidation c =
     (truthy c \<and> truthy (read_prop c ''logs'') \<and> typeof (read_prop c ''dailyGoal'') = ''number'')"

subsection \<open>The initial state\<close>

text \<open>
  \<^verbatim>\<open>String.prototype.toLowerCase\<close> and \<^verbatim>\<open>String.prototype.includes\<close>. \<^verbatim>\<open>navigator.language\<close> is a
  BCP 47 language tag, which is ASCII, so lower-casing maps the letters A to Z only.
\<close>

definition toLowerCaseChar :: "char \<Rightarrow> char" where
  "toLowerCaseChar c =
     (case map_of (zip ''ABCDEFGHIJKLMNOPQRSTUVWXYZ'' ''abcdefghijklmnopqrstuvwxyz'') c of
        Some l \<Rightarrow> l
      | None \<Rightarrow> c)"

definition toLowerCase :: "string \<Rightarrow> string" where
  "toLowerCase s = map toLowerCaseChar s"

fun includesStr :: "string \<Rightarrow> string \<Rightarrow> bool" where
  "includesStr [] t = (t = [])"
| "includesStr (c # cs) t = (prefix t (c # cs) \<or> includesStr cs t)"

text \<open>Lines 4-10; the argument is \<^verbatim>\<open>navigator.language\<close>.\<close>

definition getInitialLanguage :: "string \<Rightarrow> string" where
  "getInitialLanguage navigatorLanguage =
     (let browserLang = toLowerCase navigatorLanguage
      in if includesStr browserLang ''zh-tw'' \<or> includesStr browserLang ''zh-hk'' then ''zh-TW''
         else ''en'')"

definition defaultMacronutrientGoals :: jsval where
  "defaultMacronutrientGoals =
     JObj [''protein'' \<mapsto> JNum (Finite 150), ''carbs'' \<mapsto> JNum (Finite 250),
           ''fat'' \<mapsto> JNum (Finite 60)]"

definition defaultUserProfile :: jsval where
  "defaultUserProfile =
     JObj [''age'' \<mapsto> JNull, ''sex'' \<mapsto> JNull, ''weight'' \<mapsto> JNull, ''height'' \<mapsto> JNull,
           ''activityLevel'' \<mapsto> JStr ''moderate'']"

text \<open>
  Lines 16-36. The constant is built once, when the module is loaded; the argument is
  \<^verbatim>\<open>navigator.language\<close> at that moment.
\<close>

definition initialAppState :: "string \<Rightarrow> jsval" where
  "initialAppState navigatorLanguage =
     JObj [''dailyGoal'' \<mapsto> JNum (Finite 2000),
           ''macronutrientGoals'' \<mapsto> defaultMacronutrientGoals,
           ''logs'' \<mapsto> JObj Map.empty,
           ''customFoods'' \<mapsto> JArr [],
           ''apiKey'' \<mapsto> JNull,
           ''aiModel'' \<mapsto> JStr ''gemini-2.5-flash'',
           ''language'' \<mapsto> JStr (getInitialLanguage navigatorLanguage),
           ''userProfile'' \<mapsto> defaultUserProfile,
           ''chatHistory'' \<mapsto> JArr []]"

subsection \<open>Start-up rehydration\<close>

text \<open>Sequencing of steps that can throw, and \<^verbatim>\<open>a || b\<close>.\<close>

definition andThen :: "error + 'a \<Rightarrow> ('a \<Rightarrow> error + 'b) \<Rightarrow> error + 'b" where
  "andThen r f = (case r of Inl e \<Rightarrow> Inl e | Inr v \<Rightarrow> f v)"

definition js_or :: "jsval \<Rightarrow> error + jsval \<Rightarrow> error + jsval" where
  "js_or a b = (if truthy a then Inr a else b)"

text \<open>
  The body of the \<^verbatim>\<open>try\<close> block of the load effect (lines 50-61): the state it passes to
  \<^verbatim>\<open>setAppState\<close>, or the exception that leaves the block. \<open>parse\<close> is
  \<^verbatim>\<open>JSON.parse\<close>, \<open>navigatorLanguage\<close> is \<^verbatim>\<open>navigator.language\<close> when the effect
  runs, \<open>init\<close> is the constant \<^verbatim>\<open>initialAppState\<close> and \<open>getItem\<close> is the outcome of
  \<^verbatim>\<open>localStorage.getItem('calorieTrackerState')\<close>: an exception, \<^verbatim>\<open>null\<close> or a string.
\<close>

definition tryLoad ::
  "(string \<Rightarrow> error + jsval) \<Rightarrow> string \<Rightarrow> jsval \<Rightarrow> error + string option \<Rightarrow> error + jsval"
where
  "tryLoad parse navigatorLanguage init getItem =
     andThen getItem (\<lambda>storedState.
       (case storedState of
          None \<Rightarrow> Inr init
        | Some str \<Rightarrow>
            (if str = [] then Inr init
             else
               andThen (parse str) (\<lambda>parsedState.
               andThen (andThen (get_prop parsedState ''language'')
                          (\<lambda>l. js_or l (Inr (JStr (getInitialLanguage navigatorLanguage)))))
                 (\<lambda>language.
               andThen (andThen (get_prop parsedState ''userProfile'')
                          (\<lambda>u. js_or u (get_prop init ''userProfile'')))
                 (\<lambda>userProfile.
               andThen (andThen (get_prop parsedState ''chatHistory'')
                          (\<lambda>c. js_or c (Inr (JArr []))))
                 (\<lambda>chatHistory.
               andThen (andThen (get_prop parsedState ''macronutrientGoals'')
                          (\<lambda>g. js_or g (get_prop init ''macronutrientGoals'')))
                 (\<lambda>macronutrientGoals.
                 Inr (JObj (ownProps init ++ ownProps parsedState ++
                        [''language'' \<mapsto> language, ''userProfile'' \<mapsto> userProfile,
                         ''chatHistory'' \<mapsto> chatHistory,
                         ''macronutrientGoals'' \<mapsto> macronutrientGoals]))))))))))"

text \<open>
  The load effect (lines 49-67). The \<^verbatim>\<open>catch\<close> block installs the initial state. The two
  state updates are applied in one render, after which the persistence effect runs.
\<close>

definition loadEffect ::
  "(string \<Rightarrow> error + jsval) \<Rightarrow> string \<Rightarrow> jsval \<Rightarrow> error + string option \<Rightarrow>
   jsval store \<Rightarrow> jsval store"
where
  "loadEffect parse navigatorLanguage init getItem s =
     (let v = (case tryLoad parse navigatorLanguage init getItem of
                 Inl e \<Rightarrow> init
               | Inr x \<Rightarrow> x)
      in persistEffect (s\<lparr>appState := v, isInitialized := True\<rparr>))"

text \<open>
  Mounting the provider: the first render holds the initial state (lines 43-44), then the
  load effect runs. \<open>lang0\<close> is the device locale when the module was loaded, \<open>lang1\<close> the
  one when the effect runs.
\<close>

definition mount ::
  "(string \<Rightarrow> error + jsval) \<Rightarrow> string \<Rightarrow> string \<Rightarrow> error + string option \<Rightarrow> jsval store"
where
  "mount parse lang0 lang1 getItem =
     loadEffect parse lang1 (initialAppState lang0) getItem
       \<lparr>appState = initialAppState lang0, isInitialized = False, writes = []\<rparr>"

text \<open>
  The object that the literal of line 58 builds once the four reads of \<open>parsedState\<close> have
  succeeded, as a function of the parsed value. It serves to state what \<open>tryLoad\<close> returns.
\<close>

definition merged :: "string \<Rightarrow> string \<Rightarrow> jsval \<Rightarrow> jsval" where
  "merged lang0 lang1 p =
     JObj (ownProps (initialAppState lang0) ++ ownProps p ++
       [''language'' \<mapsto>
          (if truthy (read_prop p ''language'') then read_prop p ''language''
           else JStr (getInitialLanguage lang1)),
        ''userProfile'' \<mapsto>
          (if truthy (read_prop p ''userProfile'') then read_prop p ''userProfile''
           else defaultUserProfile),
        ''chatHistory'' \<mapsto>
          (if truthy (read_prop p ''chatHistory'') then read_prop p ''chatHistory''
           else JArr []),
        ''macronutrientGoals'' \<mapsto>
          (if truthy (read_prop p ''macronutrientGoals'') then read_prop p ''macronutrientGoals''
           else defaultMacronutrientGoals)])"

section \<open>The typed application state\<close>

text \<open>
  Modelled from the spec: the declarations of \<^verbatim>\<open>src/types.ts\<close> that the store imports
  (\<^verbatim>\<open>AppState\<close>, \<^verbatim>\<open>DailyLog\<close>, \<^verbatim>\<open>FoodEntry\<close>, \<^verbatim>\<open>ExerciseEntry\<close>,
  \<^verbatim>\<open>UserProfile\<close>, \<^verbatim>\<open>ChatMessage\<close>, \<^verbatim>\<open>MacronutrientGoals\<close>). The records follow
  the data model of the specification and the fields that the code reads and writes; an
  earlier version of the declarations, without the macronutrient fields, is appended to
  \<^verbatim>\<open>src/utils/translationValidator.ts\<close>. A field carries the name of its record where
  two records have a field of the same name.
\<close>

datatype Meal = Breakfast | Lunch | Dinner | Snack

datatype Sex = Male | Female

datatype ActivityLevel = Sedentary | Light | Moderate | Active | VeryActive

datatype Role = User | Model

datatype SupportedLanguage = En | ZhTW

text \<open>\<^verbatim>\<open>Omit<FoodEntry, 'id' | 'meal'>\<close>, the element type of \<^verbatim>\<open>customFoods\<close>.\<close>

record CustomFood =
  food_name :: string
  food_calories :: jsnum
  food_protein :: jsnum
  food_carbs :: jsnum
  food_fat :: jsnum

text \<open>\<^verbatim>\<open>Omit<FoodEntry, 'id'>\<close>, the argument of \<^verbatim>\<open>addFood\<close>.\<close>

record NewFood = CustomFood +
  food_meal :: Meal

record FoodEntry = NewFood +
  food_id :: string

text \<open>\<^verbatim>\<open>Omit<ExerciseEntry, 'id'>\<close>, the argument of \<^verbatim>\<open>addExercise\<close>.\<close>

record NewExercise =
  exercise_name :: string
  exercise_duration :: jsnum
  exercise_calories :: jsnum

record ExerciseEntry = NewExercise +
  exercise_id :: string

record DailyLog =
  food :: "FoodEntry list"
  exercise :: "ExerciseEntry list"

record MacronutrientGoals =
  protein :: jsnum
  carbs :: jsnum
  fat :: jsnum

record UserProfile =
  age :: "jsnum option"
  sex :: "Sex option"
  weight :: "jsnum option"
  height :: "jsnum option"
  activityLevel :: ActivityLevel

record ChatMessage =
  role :: Role
  message_text :: string

text \<open>\<open>logs\<close> is \<^verbatim>\<open>Record<string, DailyLog>\<close>, keyed by the date string of a day.\<close>

record AppState =
  dailyGoal :: jsnum
  macronutrientGoals :: MacronutrientGoals
  logs :: "string \<Rightarrow> DailyLog option"
  customFoods :: "CustomFood list"
  apiKey :: "string option"
  aiModel :: string
  language :: SupportedLanguage
  userProfile :: UserProfile
  chatHistory :: "ChatMessage list"

subsection \<open>Operations\<close>

text \<open>
  In every operation \<open>dateString\<close> is the date string of the selected day (line 47), which
  the callbacks close over, and \<open>now\<close> is what \<^verbatim>\<open>Date.now()\<close> returns when the updater
  runs. A \<open>DailyLog\<close> is an object, hence truthy: \<^verbatim>\<open>logs[date] || {food: [], exercise: []}\<close>
  takes the empty log exactly when the date has no entry. The keys of \<open>logs\<close> are date
  strings (\<^verbatim>\<open>YYYY-MM-DD\<close>); no member of \<^verbatim>\<open>Object.prototype\<close> has such a name, so a
  lookup finds an own property or nothing.
\<close>

text \<open>Lines 83-85.\<close>

definition getLogForDate :: "AppState store \<Rightarrow> string \<Rightarrow> DailyLog" where
  "getLogForDate s date =
     (case logs (appState s) date of
        Some l \<Rightarrow> l
      | None \<Rightarrow> \<lparr>food = [], exercise = []\<rparr>)"

text \<open>Lines 87-94. \<open>NewFood.extend f (FoodEntry.fields i)\<close> is \<^verbatim>\<open>{...f, id: i}\<close>.\<close>

definition addFood :: "string \<Rightarrow> int \<Rightarrow> NewFood \<Rightarrow> AppState store \<Rightarrow> AppState store" where
  "addFood dateString now newFood =
     updateState (\<lambda>prev.
       let newFoodEntry = NewFood.extend newFood (FoodEntry.fields (toString now));
           currentLog = (case logs prev dateString of
                           Some l \<Rightarrow> l
                         | None \<Rightarrow> \<lparr>food = [], exercise = []\<rparr>);
           newLog = currentLog\<lparr>food := food currentLog @ [newFoodEntry]\<rparr>
       in NewObject (prev\<lparr>logs := (logs prev)(dateString \<mapsto> newLog)\<rparr>))"

text \<open>Lines 96-103.\<close>

definition addExercise ::
  "string \<Rightarrow> int \<Rightarrow> NewExercise \<Rightarrow> AppState store \<Rightarrow> AppState store"
where
  "addExercise dateString now newExercise =
     updateState (\<lambda>prev.
       let newExerciseEntry =
             NewExercise.extend newExercise (ExerciseEntry.fields (toString now));
           currentLog = (case logs prev dateString of
                           Some l \<Rightarrow> l
                         | None \<Rightarrow> \<lparr>food = [], exercise = []\<rparr>);
           newLog = currentLog\<lparr>exercise := exercise currentLog @ [newExerciseEntry]\<rparr>
       in NewObject (prev\<lparr>logs := (logs prev)(dateString \<mapsto> newLog)\<rparr>))"

text \<open>Lines 105-113.\<close>

definition removeFood :: "string \<Rightarrow> string \<Rightarrow> AppState store \<Rightarrow> AppState store" where
  "removeFood dateString foodId =
     updateState (\<lambda>prev.
       (case logs prev dateString of
          None \<Rightarrow> SameObject
        | Some currentLog \<Rightarrow>
            (let newFood = filter (\<lambda>f. food_id f \<noteq> foodId) (food currentLog);
                 newLog = currentLog\<lparr>food := newFood\<rparr>
             in NewObject (prev\<lparr>logs := (logs prev)(dateString \<mapsto> newLog)\<rparr>))))"

text \<open>Lines 115-123.\<close>

definition removeExercise :: "string \<Rightarrow> string \<Rightarrow> AppState store \<Rightarrow> AppState store" where
  "removeExercise dateString exerciseId =
     updateState (\<lambda>prev.
       (case logs prev dateString of
          None \<Rightarrow> SameObject
        | Some currentLog \<Rightarrow>
            (let newExercise = filter (\<lambda>e. exercise_id e \<noteq> exerciseId) (exercise currentLog);
                 newLog = currentLog\<lparr>exercise := newExercise\<rparr>
             in NewObject (prev\<lparr>logs := (logs prev)(dateString \<mapsto> newLog)\<rparr>))))"

text \<open>Lines 153-155.\<close>

definition clearChatHistory :: "AppState store \<Rightarrow> AppState store" where
  "clearChatHistory = updateState (\<lambda>prev. NewObject (prev\<lparr>chatHistory := []\<rparr>))"

section \<open>Example inputs\<close>

text \<open>A \<^verbatim>\<open>JSON.parse\<close> that rejects every text; it is not called where nothing is stored.\<close>

definition noParse :: "string \<Rightarrow> error + jsval" where
  "noParse str = Inl SyntaxError"

text \<open>The store after start-up on an \<^verbatim>\<open>en-US\<close> device with nothing stored.\<close>

definition exampleStore :: "jsval store" where
  "exampleStore = mount noParse ''en-US'' ''en-US'' (Inr None)"

definition payloadWithoutLogs :: jsval where
  "payloadWithoutLogs = JObj [''dailyGoal'' \<mapsto> JNum (Finite 1800)]"

definition payloadTextGoal :: jsval where
  "payloadTextGoal = JObj [''logs'' \<mapsto> JObj Map.empty, ''dailyGoal'' \<mapsto> JStr ''1800'']"

definition payloadStringLogs :: jsval where
  "payloadStringLogs = JObj [''logs'' \<mapsto> JStr ''none'', ''dailyGoal'' \<mapsto> JNum (Finite 1800)]"

definition payloadNaNGoal :: jsval where
  "payloadNaNGoal = JObj [''logs'' \<mapsto> JObj Map.empty, ''dailyGoal'' \<mapsto> JNum NaN]"

definition backupPayload :: jsval where
  "backupPayload =
     JObj [''dailyGoal'' \<mapsto> JNum (Finite 1800),
           ''logs'' \<mapsto> JObj Map.empty,
           ''userProfile'' \<mapsto> JObj [''age'' \<mapsto> JNum (Finite 30)],
           ''chatHistory'' \<mapsto> JArr [JObj [''role'' \<mapsto> JStr ''user'', ''text'' \<mapsto> JStr ''hi'']]]"

text \<open>A stored text, and a \<^verbatim>\<open>JSON.parse\<close> that is right on it.\<close>

definition exampleBlob :: string where
  "exampleBlob = ''{\"dailyGoal\":1800,\"logs\":{}}''"

definition storedPayload :: jsval where
  "storedPayload = JObj [''dailyGoal'' \<mapsto> JNum (Finite 1800), ''logs'' \<mapsto> JObj Map.empty]"

definition exampleParse :: "string \<Rightarrow> error + jsval" where
  "exampleParse str = (if str = exampleBlob then Inr storedPayload else Inl SyntaxError)"

text \<open>
  Typed inputs: the initial state, two foods (the first is the one of the scenario in the
  specification), two exercises, and the store after the first food was added.
\<close>

definition exampleAppState :: AppState where
  "exampleAppState =
     \<lparr>dailyGoal = Finite 2000,
      macronutrientGoals = \<lparr>protein = Finite 150, carbs = Finite 250, fat = Finite 60\<rparr>,
      logs = Map.empty,
      customFoods = [],
      apiKey = None,
      aiModel = ''gemini-2.5-flash'',
      language = En,
      userProfile =
        \<lparr>age = None, sex = None, weight = None, height = None, activityLevel = Moderate\<rparr>,
      chatHistory = []\<rparr>"

definition typedStore :: "AppState store" where
  "typedStore = \<lparr>appState = exampleAppState, isInitialized = True, writes = [exampleAppState]\<rparr>"

definition apple :: NewFood where
  "apple =
     \<lparr>food_name = ''Apple'', food_calories = Finite 95, food_protein = Finite 0,
      food_carbs = Finite 25, food_fat = Finite 0, food_meal = Snack\<rparr>"

definition toast :: NewFood where
  "toast =
     \<lparr>food_name = ''Toast'', food_calories = Finite 120, food_protein = Finite 4,
      food_carbs = Finite 22, food_fat = Finite 2, food_meal = Breakfast\<rparr>"

definition running :: NewExercise where
  "running =
     \<lparr>exercise_name = ''Running'', exercise_duration = Finite 30,
      exercise_calories = Finite 360\<rparr>"

definition yoga :: NewExercise where
  "yoga =
     \<lparr>exercise_name = ''Yoga'', exercise_duration = Finite 30, exercise_calories = Finite 92\<rparr>"

definition storeWithApple :: "AppState store" where
  "storeWithApple = addFood ''2024-01-01'' 1704067200000 apple typedStore"

section \<open>Properties of the unchecked paths\<close>

subsection \<open>Auxiliary facts\<close>

lemma truthy_not_nullish: "truthy v \<Longrightarrow> v \<noteq> JNull \<and> v \<noteq> JUndefined"
  by (cases v) simp_all

lemma get_prop_read_prop:
  "v \<noteq> JNull \<Longrightarrow> v \<noteq> JUndefined \<Longrightarrow> get_prop v k = Inr (read_prop v k)"
  by (cases v) (simp_all add: read_prop_def)

lemma read_prop_absent: "\<not> hasOwn v k \<Longrightarrow> read_prop v k = JUndefined"
  by (cases v) (simp_all add: read_prop_def lookup_def)

lemma isMapping_truthy: "isMapping v \<Longrightarrow> truthy v"
  by (cases v) simp_all

lemma isNumeric_typeof: "isNumeric v \<Longrightarrow> typeof v = ''number''"
  by (cases v) simp_all

lemma appState_persistEffect: "appState (persistEffect s) = appState s"
  by (simp add: persistEffect_def)

text \<open>What a single call does, and what two updaters in one event handler do.\<close>

lemma setAppState_value:
  "setAppState (StateValue x) s =
     (case x of SameObject \<Rightarrow> s | NewObject v \<Rightarrow> persistEffect (s\<lparr>appState := v\<rparr>))"
  by (simp add: setAppState_def handler_def)

lemma updateState_eq:
  "updateState u s =
     (case u (appState s) of
        SameObject \<Rightarrow> s
      | NewObject v \<Rightarrow> persistEffect (s\<lparr>appState := v\<rparr>))"
  by (simp add: updateState_def setAppState_def handler_def split: returned.split)

lemma handler_two_updaters:
  "handler [StateUpdater (\<lambda>prev. NewObject (f prev)), StateUpdater (\<lambda>prev. NewObject (g prev))] s =
     persistEffect (s\<lparr>appState := g (f (appState s))\<rparr>)"
  by (simp add: handler_def)

lemma appState_setAppState:
  "appState (setAppState (StateValue x) s) = contentOf x (appState s)"
  by (cases x) (simp_all add: setAppState_value persistEffect_def)

text \<open>
  The flag is set by the load effect and no operation clears it: a store is initialised from
  the end of start-up on.
\<close>

lemma isInitialized_mount: "isInitialized (mount parse lang0 lang1 getItem)"
  by (simp add: mount_def loadEffect_def persistEffect_def Let_def)

lemma isInitialized_handler: "isInitialized (handler acts s) = isInitialized s"
  by (simp add: handler_def persistEffect_def split: returned.split)

lemma isInitialized_setAppState: "isInitialized (setAppState a s) = isInitialized s"
  by (simp add: setAppState_def isInitialized_handler)

lemma isInitialized_updateState: "isInitialized (updateState u s) = isInitialized s"
  by (simp add: updateState_def isInitialized_setAppState)

text \<open>\<open>importData\<close> never throws: the reads happen behind the test that the value is truthy.\<close>

lemma importData_eq:
  "importData x s =
     (if passesValidation (contentOf x (appState s))
      then Inr (True, setAppState (StateValue x) s)
      else Inr (False, s))"
proof (cases "truthy (contentOf x (appState s))")
  case False
  then show ?thesis by (simp add: importData_def passesValidation_def Let_def)
next
  case True
  then have "get_prop (contentOf x (appState s)) ''logs'' =
      Inr (read_prop (contentOf x (appState s)) ''logs'')"
    and "get_prop (contentOf x (appState s)) ''dailyGoal'' =
      Inr (read_prop (contentOf x (appState s)) ''dailyGoal'')"
    using truthy_not_nullish get_prop_read_prop by blast+
  with True show ?thesis by (simp add: importData_def passesValidation_def Let_def)
qed

lemma wellFormedPayload_passes: "wellFormedPayload c \<Longrightarrow> passesValidation c"
  by (cases c)
     (simp_all add: wellFormedPayload_def passesValidation_def read_prop_def
        isMapping_truthy isNumeric_typeof)

lemma exampleStore_eq:
  "exampleStore =
     \<lparr>appState = initialAppState ''en-US'', isInitialized = True,
      writes = [initialAppState ''en-US'']\<rparr>"
  by (simp add: exampleStore_def mount_def loadEffect_def tryLoad_def andThen_def
      persistEffect_def Let_def)

lemma includesStr_sublist: "includesStr s t \<longleftrightarrow> sublist t s"
  by (induction s) (simp_all add: sublist_Cons_right)

subsection \<open>importData\<close>

text \<open>
  C1. A candidate that has no \<^verbatim>\<open>logs\<close> property, or whose \<^verbatim>\<open>dailyGoal\<close> is not of type
  number, makes \<open>importData\<close> return \<^verbatim>\<open>false\<close>; no exception is raised, and the store after
  the call is the store before it: the state, the initialisation flag and the writes to
  storage. This holds for a candidate that is another object and for the state object itself.
\<close>

theorem importData_rejects_malformed:
  assumes "\<not> hasOwn (contentOf x (appState s)) ''logs'' \<or>
    typeof (read_prop (contentOf x (appState s)) ''dailyGoal'') \<noteq> ''number''"
  shows "importData x s = Inr (False, s)"
proof -
  from assms have "\<not> passesValidation (contentOf x (appState s))"
    by (auto simp: passesValidation_def read_prop_absent)
  then show ?thesis by (simp add: importData_eq)
qed

theorem importData_rejects_malformed_witness:
  "\<not> hasOwn payloadWithoutLogs ''logs'' \<and>
   importData (NewObject payloadWithoutLogs) exampleStore = Inr (False, exampleStore) \<and>
   typeof (read_prop payloadTextGoal ''dailyGoal'') \<noteq> ''number'' \<and>
   importData (NewObject payloadTextGoal) exampleStore = Inr (False, exampleStore)"
proof -
  have h1: "\<not> hasOwn payloadWithoutLogs ''logs''"
    by (simp add: payloadWithoutLogs_def)
  have h2: "typeof (read_prop payloadTextGoal ''dailyGoal'') \<noteq> ''number''"
    by (simp add: payloadTextGoal_def read_prop_def lookup_def)
  from h1 have "\<not> hasOwn (contentOf (NewObject payloadWithoutLogs) (appState exampleStore))
      ''logs''"
    by simp
  then have "importData (NewObject payloadWithoutLogs) exampleStore = Inr (False, exampleStore)"
    by (intro importData_rejects_malformed disjI1)
  moreover from h2
  have "typeof (read_prop (contentOf (NewObject payloadTextGoal) (appState exampleStore))
      ''dailyGoal'') \<noteq> ''number''"
    by simp
  then have "importData (NewObject payloadTextGoal) exampleStore = Inr (False, exampleStore)"
    by (intro importData_rejects_malformed disjI2)
  ultimately show ?thesis using h1 h2 by blast
qed

text \<open>
  C2, as the claim states it, fails: a persistence write is not triggered by every candidate
  that passes the validation. The effect runs after a render in which the state is another
  object. For \<^verbatim>\<open>importData(appState)\<close>, the candidate being the state object that the store
  holds, \<open>importData\<close> returns \<^verbatim>\<open>true\<close>, React renders nothing again, and the store with its
  writes is what it was.
\<close>

theorem importData_same_object_counterexample:
  "passesValidation (contentOf SameObject (appState exampleStore)) \<and>
   isInitialized exampleStore \<and>
   importData SameObject exampleStore = Inr (True, exampleStore)"
  by (simp add: importData_eq setAppState_value exampleStore_eq passesValidation_def
      initialAppState_def read_prop_def lookup_def)

text \<open>
  C2, amended. A candidate that passes the validation of \<open>importData\<close>, given to an
  initialised store in an event handler of its own, makes it return \<^verbatim>\<open>true\<close>. The state of
  the store is then the candidate, so every property of it, \<^verbatim>\<open>chatHistory\<close> and
  \<^verbatim>\<open>userProfile\<close> among them, reads as it does on the candidate. The persistence effect
  writes the new state when the candidate is another object than the state that the store
  held, as a parsed file is, and writes nothing when it is that object. The store is
  initialised whenever a consumer can reach the import: \<^verbatim>\<open>App\<close> renders a loading screen
  until \<^verbatim>\<open>isInitialized\<close> holds (\<^verbatim>\<open>src/App.tsx\<close>, line 800), the load effect sets the
  flag at start-up and nothing clears it (\<open>isInitialized_mount\<close>,
  \<open>isInitialized_setAppState\<close>, \<open>isInitialized_updateState\<close>). Before that, the effect is
  guarded by the flag and React applies an update in the same render as the updates of the
  load effect.
\<close>

theorem importData_replaces_state:
  assumes "passesValidation (contentOf x (appState s))" and "isInitialized s"
  shows "\<exists>s'. importData x s = Inr (True, s') \<and>
           appState s' = contentOf x (appState s) \<and>
           read_prop (appState s') ''chatHistory'' =
             read_prop (contentOf x (appState s)) ''chatHistory'' \<and>
           read_prop (appState s') ''userProfile'' =
             read_prop (contentOf x (appState s)) ''userProfile'' \<and>
           (\<forall>k. get_prop (appState s') k = get_prop (contentOf x (appState s)) k) \<and>
           isInitialized s' \<and>
           writes s' = (case x of SameObject \<Rightarrow> writes s | NewObject c \<Rightarrow> writes s @ [c])"
  using assms
  by (cases x) (simp_all add: importData_eq setAppState_value persistEffect_def)

theorem importData_replaces_state_witness:
  "wellFormedPayload backupPayload \<and> isInitialized exampleStore \<and>
   (\<exists>s'. importData (NewObject backupPayload) exampleStore = Inr (True, s') \<and>
      appState s' = backupPayload \<and>
      read_prop (appState s') ''chatHistory'' = read_prop backupPayload ''chatHistory'' \<and>
      read_prop (appState s') ''userProfile'' = read_prop backupPayload ''userProfile'' \<and>
      (\<forall>k. get_prop (appState s') k = get_prop backupPayload k) \<and>
      isInitialized s' \<and> writes s' = writes exampleStore @ [backupPayload])"
proof -
  have w: "wellFormedPayload backupPayload"
    by (simp add: wellFormedPayload_def backupPayload_def lookup_def)
  have i: "isInitialized exampleStore"
    by (simp add: exampleStore_eq)
  from wellFormedPayload_passes [OF w]
  have v: "passesValidation (contentOf (NewObject backupPayload) (appState exampleStore))"
    by simp
  from importData_replaces_state [OF v i]
  have "\<exists>s'. importData (NewObject backupPayload) exampleStore = Inr (True, s') \<and>
      appState s' = backupPayload \<and>
      read_prop (appState s') ''chatHistory'' = read_prop backupPayload ''chatHistory'' \<and>
      read_prop (appState s') ''userProfile'' = read_prop backupPayload ''userProfile'' \<and>
      (\<forall>k. get_prop (appState s') k = get_prop backupPayload k) \<and>
      isInitialized s' \<and> writes s' = writes exampleStore @ [backupPayload]"
    by simp
  with w i show ?thesis by blast
qed

text \<open>
  C10. \<open>importData\<close> returns \<^verbatim>\<open>true\<close> exactly when the candidate is truthy, its \<^verbatim>\<open>logs\<close>
  is truthy and its \<^verbatim>\<open>dailyGoal\<close> is of type number. Nothing else of the shape is checked:
  a candidate whose \<^verbatim>\<open>logs\<close> is a non-empty string, and one whose \<^verbatim>\<open>dailyGoal\<close> is NaN,
  are accepted and become the whole state.
\<close>

theorem importData_true_iff:
  "(\<exists>s'. importData x s = Inr (True, s')) =
     (truthy (contentOf x (appState s)) \<and>
      truthy (read_prop (contentOf x (appState s)) ''logs'') \<and>
      typeof (read_prop (contentOf x (appState s)) ''dailyGoal'') = ''number'') \<and>
   (read_prop payloadStringLogs ''logs'' = JStr ''none'' \<and>
    importData (NewObject payloadStringLogs) s =
      Inr (True, setAppState (StateValue (NewObject payloadStringLogs)) s) \<and>
    appState (setAppState (StateValue (NewObject payloadStringLogs)) s) = payloadStringLogs) \<and>
   (read_prop payloadNaNGoal ''dailyGoal'' = JNum NaN \<and>
    importData (NewObject payloadNaNGoal) s =
      Inr (True, setAppState (StateValue (NewObject payloadNaNGoal)) s) \<and>
    appState (setAppState (StateValue (NewObject payloadNaNGoal)) s) = payloadNaNGoal)"
proof -
  have "(\<exists>s'. importData x s = Inr (True, s')) = passesValidation (contentOf x (appState s))"
    by (simp add: importData_eq)
  moreover have "passesValidation payloadStringLogs"
    and "read_prop payloadStringLogs ''logs'' = JStr ''none''"
    by (simp_all add: passesValidation_def payloadStringLogs_def read_prop_def lookup_def)
  moreover have "passesValidation payloadNaNGoal"
    and "read_prop payloadNaNGoal ''dailyGoal'' = JNum NaN"
    by (simp_all add: passesValidation_def payloadNaNGoal_def read_prop_def lookup_def)
  ultimately show ?thesis
    by (simp add: importData_eq appState_setAppState passesValidation_def)
qed

subsection \<open>The initial language\<close>

text \<open>
  C7. With nothing stored, the language of the state after start-up is the one that
  \<open>getInitialLanguage\<close> derives from the device locale: \<^verbatim>\<open>zh-TW\<close> for the locales
  \<^verbatim>\<open>zh-TW\<close> and \<^verbatim>\<open>zh-HK\<close>, \<^verbatim>\<open>en\<close> for \<^verbatim>\<open>en-US\<close>, and in general \<^verbatim>\<open>zh-TW\<close> when the
  lower-cased locale contains \<^verbatim>\<open>zh-tw\<close> or \<^verbatim>\<open>zh-hk\<close>, and \<^verbatim>\<open>en\<close> for every other one.
\<close>

theorem getInitialLanguage_by_locale:
  "getInitialLanguage ''zh-TW'' = ''zh-TW'' \<and>
   getInitialLanguage ''zh-HK'' = ''zh-TW'' \<and>
   getInitialLanguage ''en-US'' = ''en'' \<and>
   getInitialLanguage locale =
     (if sublist ''zh-tw'' (toLowerCase locale) \<or> sublist ''zh-hk'' (toLowerCase locale)
      then ''zh-TW'' else ''en'') \<and>
   read_prop (appState (mount parse locale locale' (Inr None))) ''language'' =
     JStr (getInitialLanguage locale)"
proof -
  have "getInitialLanguage ''zh-TW'' = ''zh-TW''" "getInitialLanguage ''zh-HK'' = ''zh-TW''"
    "getInitialLanguage ''en-US'' = ''en''"
    by (simp_all add: getInitialLanguage_def toLowerCase_def toLowerCaseChar_def)
  moreover have "getInitialLanguage locale =
     (if sublist ''zh-tw'' (toLowerCase locale) \<or> sublist ''zh-hk'' (toLowerCase locale)
      then ''zh-TW'' else ''en'')"
    by (simp add: getInitialLanguage_def includesStr_sublist)
  moreover have "read_prop (appState (mount parse locale locale' (Inr None))) ''language'' =
     JStr (getInitialLanguage locale)"
    by (simp add: mount_def loadEffect_def tryLoad_def andThen_def appState_persistEffect
        initialAppState_def read_prop_def lookup_def Let_def)
  ultimately show ?thesis by simp
qed

subsection \<open>Start-up rehydration\<close>

lemma get_prop_nullish: "v = JNull \<or> v = JUndefined \<Longrightarrow> get_prop v k = Inl TypeError"
  by auto

lemma read_prop_JObj: "read_prop (JObj m) k = lookup m k"
  by (simp add: read_prop_def)

lemma appState_mount:
  "appState (mount parse lang0 lang1 getItem) =
     (case tryLoad parse lang1 (initialAppState lang0) getItem of
        Inl e \<Rightarrow> initialAppState lang0
      | Inr x \<Rightarrow> x)"
  by (simp add: mount_def loadEffect_def appState_persistEffect Let_def)

lemma tryLoad_empty_text:
  "tryLoad parse lang1 init (Inr (Some [])) = Inr init"
  by (simp add: tryLoad_def andThen_def)

lemma tryLoad_nullish:
  assumes "blob \<noteq> []" and "parse blob = Inr p" and "p = JNull \<or> p = JUndefined"
  shows "tryLoad parse lang1 init (Inr (Some blob)) = Inl TypeError"
  using assms by (auto simp: tryLoad_def andThen_def)

lemma tryLoad_merged:
  assumes "blob \<noteq> []" and "parse blob = Inr p" and "p \<noteq> JNull" and "p \<noteq> JUndefined"
  shows "tryLoad parse lang1 (initialAppState lang0) (Inr (Some blob)) =
           Inr (merged lang0 lang1 p)"
proof -
  have r: "get_prop p k = Inr (read_prop p k)" for k
    using assms(3,4) by (rule get_prop_read_prop)
  have u: "get_prop (initialAppState lang0) ''userProfile'' = Inr defaultUserProfile"
    by (simp add: initialAppState_def lookup_def)
  have g: "get_prop (initialAppState lang0) ''macronutrientGoals'' = Inr defaultMacronutrientGoals"
    by (simp add: initialAppState_def lookup_def)
  show ?thesis
    using assms(1,2) by (simp add: tryLoad_def andThen_def js_or_def r u g merged_def)
qed

lemma mount_cases:
  assumes "parse blob = Inr p"
  shows "appState (mount parse lang0 lang1 (Inr (Some blob))) =
           (if blob = [] \<or> p = JNull \<or> p = JUndefined then initialAppState lang0
            else merged lang0 lang1 p)"
proof (cases "blob = []")
  case True
  then show ?thesis by (simp add: appState_mount tryLoad_empty_text)
next
  case False
  show ?thesis
  proof (cases "p = JNull \<or> p = JUndefined")
    case True
    have "tryLoad parse lang1 (initialAppState lang0) (Inr (Some blob)) = Inl TypeError"
      using False assms True by (rule tryLoad_nullish)
    with False True show ?thesis
      by (simp add: appState_mount)
  next
    case n: False
    with False assms show ?thesis
      by (simp add: appState_mount tryLoad_merged)
  qed
qed

lemma read_initial_defaults:
  "read_prop (initialAppState lang0) ''macronutrientGoals'' = defaultMacronutrientGoals"
  "read_prop (initialAppState lang0) ''userProfile'' = defaultUserProfile"
  "read_prop (initialAppState lang0) ''chatHistory'' = JArr []"
  by (simp_all add: initialAppState_def read_prop_def lookup_def)

lemma read_merged_special:
  "read_prop (merged lang0 lang1 p) ''macronutrientGoals'' =
     (if truthy (read_prop p ''macronutrientGoals'') then read_prop p ''macronutrientGoals''
      else defaultMacronutrientGoals)"
  "read_prop (merged lang0 lang1 p) ''userProfile'' =
     (if truthy (read_prop p ''userProfile'') then read_prop p ''userProfile''
      else defaultUserProfile)"
  "read_prop (merged lang0 lang1 p) ''chatHistory'' =
     (if truthy (read_prop p ''chatHistory'') then read_prop p ''chatHistory'' else JArr [])"
  "read_prop (merged lang0 lang1 p) ''language'' =
     (if truthy (read_prop p ''language'') then read_prop p ''language''
      else JStr (getInitialLanguage lang1))"
  by (simp_all add: merged_def read_prop_JObj lookup_def)

lemma read_merged_other:
  assumes "k \<noteq> ''language''" "k \<noteq> ''userProfile''" "k \<noteq> ''chatHistory''"
    "k \<noteq> ''macronutrientGoals''"
  shows "read_prop (merged lang0 lang1 p) k =
           (case ownProps p k of
              Some v \<Rightarrow> v
            | None \<Rightarrow> read_prop (initialAppState lang0) k)"
  using assms
  by (simp add: merged_def read_prop_JObj lookup_def map_add_def initialAppState_def
      split: option.split)

lemma mount_absent:
  assumes "parse blob = Inr p" and "\<not> hasOwn p k"
  shows "k = ''macronutrientGoals'' \<Longrightarrow>
           read_prop (appState (mount parse lang0 lang1 (Inr (Some blob)))) k =
             defaultMacronutrientGoals"
    and "k = ''userProfile'' \<Longrightarrow>
           read_prop (appState (mount parse lang0 lang1 (Inr (Some blob)))) k =
             defaultUserProfile"
    and "k = ''chatHistory'' \<Longrightarrow>
           read_prop (appState (mount parse lang0 lang1 (Inr (Some blob)))) k = JArr []"
proof -
  note st = mount_cases [where parse = parse and blob = blob and p = p, OF assms(1), of lang0 lang1]
  from assms(2) have u: "read_prop p k = JUndefined" by (rule read_prop_absent)
  show "k = ''macronutrientGoals'' \<Longrightarrow>
           read_prop (appState (mount parse lang0 lang1 (Inr (Some blob)))) k =
             defaultMacronutrientGoals"
    using u by (simp add: st read_initial_defaults read_merged_special)
  show "k = ''userProfile'' \<Longrightarrow>
           read_prop (appState (mount parse lang0 lang1 (Inr (Some blob)))) k =
             defaultUserProfile"
    using u by (simp add: st read_initial_defaults read_merged_special)
  show "k = ''chatHistory'' \<Longrightarrow>
           read_prop (appState (mount parse lang0 lang1 (Inr (Some blob)))) k = JArr []"
    using u by (simp add: st read_initial_defaults read_merged_special)
qed


lemma mount_kept:
  assumes "parse blob = Inr p" and "blob \<noteq> []" and "p \<noteq> JNull" and "p \<noteq> JUndefined"
    and "ownProps p k = Some v"
    and "k \<notin> {''language'', ''userProfile'', ''chatHistory'', ''macronutrientGoals''}"
  shows "read_prop (appState (mount parse lang0 lang1 (Inr (Some blob)))) k = v"
proof -
  note st = mount_cases [where parse = parse and blob = blob and p = p, OF assms(1), of lang0 lang1]
  from assms(6) have "k \<noteq> ''language''" "k \<noteq> ''userProfile''" "k \<noteq> ''chatHistory''"
    "k \<noteq> ''macronutrientGoals''"
    by blast+
  then have "read_prop (merged lang0 lang1 p) k =
      (case ownProps p k of Some v \<Rightarrow> v | None \<Rightarrow> read_prop (initialAppState lang0) k)"
    by (rule read_merged_other)
  with assms(2-5) show ?thesis by (simp add: st)
qed

lemma mount_present:
  assumes "parse blob = Inr p" and "blob \<noteq> []" and "p \<noteq> JNull" and "p \<noteq> JUndefined"
    and "k \<in> {''userProfile'', ''chatHistory'', ''macronutrientGoals''}"
    and "truthy (read_prop p k)"
  shows "read_prop (appState (mount parse lang0 lang1 (Inr (Some blob)))) k = read_prop p k"
proof -
  note st = mount_cases [where parse = parse and blob = blob and p = p, OF assms(1), of lang0 lang1]
  from assms(5) consider "k = ''userProfile''" | "k = ''chatHistory''"
    | "k = ''macronutrientGoals''"
    by blast
  then show ?thesis
  proof cases
    case 1
    with assms(2-4,6) show ?thesis by (simp add: st read_merged_special)
  next
    case 2
    with assms(2-4,6) show ?thesis by (simp add: st read_merged_special)
  next
    case 3
    with assms(2-4,6) show ?thesis by (simp add: st read_merged_special)
  qed
qed

text \<open>
  C6. Let the stored text parse to a value \<open>p\<close>. If \<open>p\<close> has no \<^verbatim>\<open>macronutrientGoals\<close>
  property, the state after start-up has the default goals of 150, 250 and 60 grams; in the
  same way a missing \<^verbatim>\<open>userProfile\<close> and a missing \<^verbatim>\<open>chatHistory\<close> are replaced by
  their defaults, each on its own. The rest of the stored state is kept: when the text is not
  empty and \<open>p\<close> is not \<^verbatim>\<open>null\<close>, every other property of \<open>p\<close> reads in the new state as
  it does in \<open>p\<close>, and so does each of the three nested values that \<open>p\<close> has and that is
  truthy.
\<close>

theorem rehydrate_defaults_missing:
  assumes "parse blob = Inr p"
  shows
    "(\<not> hasOwn p ''macronutrientGoals'' \<longrightarrow>
        read_prop (appState (mount parse lang0 lang1 (Inr (Some blob)))) ''macronutrientGoals'' =
          JObj [''protein'' \<mapsto> JNum (Finite 150), ''carbs'' \<mapsto> JNum (Finite 250),
                ''fat'' \<mapsto> JNum (Finite 60)]) \<and>
     (\<not> hasOwn p ''userProfile'' \<longrightarrow>
        read_prop (appState (mount parse lang0 lang1 (Inr (Some blob)))) ''userProfile'' =
          JObj [''age'' \<mapsto> JNull, ''sex'' \<mapsto> JNull, ''weight'' \<mapsto> JNull,
                ''height'' \<mapsto> JNull, ''activityLevel'' \<mapsto> JStr ''moderate'']) \<and>
     (\<not> hasOwn p ''chatHistory'' \<longrightarrow>
        read_prop (appState (mount parse lang0 lang1 (Inr (Some blob)))) ''chatHistory'' =
          JArr []) \<and>
     (blob \<noteq> [] \<and> p \<noteq> JNull \<and> p \<noteq> JUndefined \<longrightarrow>
        (\<forall>k v. ownProps p k = Some v \<and>
            k \<notin> {''language'', ''userProfile'', ''chatHistory'', ''macronutrientGoals''} \<longrightarrow>
            read_prop (appState (mount parse lang0 lang1 (Inr (Some blob)))) k = v) \<and>
        (\<forall>k. k \<in> {''userProfile'', ''chatHistory'', ''macronutrientGoals''} \<and>
            truthy (read_prop p k) \<longrightarrow>
            read_prop (appState (mount parse lang0 lang1 (Inr (Some blob)))) k =
              read_prop p k))"
proof (intro conjI impI allI)
  assume "\<not> hasOwn p ''macronutrientGoals''"
  with assms
  have "read_prop (appState (mount parse lang0 lang1 (Inr (Some blob)))) ''macronutrientGoals'' =
      defaultMacronutrientGoals"
    by (rule mount_absent(1)) (rule refl)
  then show "read_prop (appState (mount parse lang0 lang1 (Inr (Some blob))))
      ''macronutrientGoals'' =
      JObj [''protein'' \<mapsto> JNum (Finite 150), ''carbs'' \<mapsto> JNum (Finite 250),
            ''fat'' \<mapsto> JNum (Finite 60)]"
    by (simp only: defaultMacronutrientGoals_def)
next
  assume "\<not> hasOwn p ''userProfile''"
  with assms
  have "read_prop (appState (mount parse lang0 lang1 (Inr (Some blob)))) ''userProfile'' =
      defaultUserProfile"
    by (rule mount_absent(2)) (rule refl)
  then show "read_prop (appState (mount parse lang0 lang1 (Inr (Some blob)))) ''userProfile'' =
      JObj [''age'' \<mapsto> JNull, ''sex'' \<mapsto> JNull, ''weight'' \<mapsto> JNull,
            ''height'' \<mapsto> JNull, ''activityLevel'' \<mapsto> JStr ''moderate'']"
    by (simp only: defaultUserProfile_def)
next
  assume "\<not> hasOwn p ''chatHistory''"
  with assms
  show "read_prop (appState (mount parse lang0 lang1 (Inr (Some blob)))) ''chatHistory'' =
      JArr []"
    by (rule mount_absent(3)) (rule refl)
next
  fix k v
  assume "blob \<noteq> [] \<and> p \<noteq> JNull \<and> p \<noteq> JUndefined"
    and "ownProps p k = Some v \<and>
      k \<notin> {''language'', ''userProfile'', ''chatHistory'', ''macronutrientGoals''}"
  with assms show "read_prop (appState (mount parse lang0 lang1 (Inr (Some blob)))) k = v"
    using mount_kept [where parse = parse and blob = blob and p = p and k = k and v = v]
    by blast
next
  fix k
  assume "blob \<noteq> [] \<and> p \<noteq> JNull \<and> p \<noteq> JUndefined"
    and "k \<in> {''userProfile'', ''chatHistory'', ''macronutrientGoals''} \<and>
      truthy (read_prop p k)"
  with assms
  show "read_prop (appState (mount parse lang0 lang1 (Inr (Some blob)))) k = read_prop p k"
    using mount_present [where parse = parse and blob = blob and p = p and k = k]
    by blast
qed

theorem rehydrate_defaults_missing_witness:
  "exampleParse exampleBlob = Inr storedPayload \<and>
   \<not> hasOwn storedPayload ''macronutrientGoals'' \<and>
   read_prop (appState (mount exampleParse ''en-US'' ''en-US'' (Inr (Some exampleBlob))))
     ''macronutrientGoals'' =
     JObj [''protein'' \<mapsto> JNum (Finite 150), ''carbs'' \<mapsto> JNum (Finite 250),
           ''fat'' \<mapsto> JNum (Finite 60)] \<and>
   \<not> hasOwn storedPayload ''chatHistory'' \<and>
   read_prop (appState (mount exampleParse ''en-US'' ''en-US'' (Inr (Some exampleBlob))))
     ''chatHistory'' = JArr [] \<and>
   ownProps storedPayload ''dailyGoal'' = Some (JNum (Finite 1800)) \<and>
   read_prop (appState (mount exampleParse ''en-US'' ''en-US'' (Inr (Some exampleBlob))))
     ''dailyGoal'' = JNum (Finite 1800)"
proof -
  have p: "exampleParse exampleBlob = Inr storedPayload"
    by (simp add: exampleParse_def)
  have m: "\<not> hasOwn storedPayload ''macronutrientGoals''"
    and c: "\<not> hasOwn storedPayload ''chatHistory''"
    and d: "ownProps storedPayload ''dailyGoal'' = Some (JNum (Finite 1800))"
    and n: "storedPayload \<noteq> JNull" "storedPayload \<noteq> JUndefined"
    by (simp_all add: storedPayload_def)
  have b: "exampleBlob \<noteq> []"
    by (simp add: exampleBlob_def)
  have k: "''dailyGoal'' \<notin> {''language'', ''userProfile'', ''chatHistory'', ''macronutrientGoals''}"
    by simp
  note t = rehydrate_defaults_missing
         [where parse = exampleParse and blob = exampleBlob and p = storedPayload, OF p,
          of "''en-US''" "''en-US''"]
  from t [THEN conjunct1] m
  have r1: "read_prop (appState (mount exampleParse ''en-US'' ''en-US'' (Inr (Some exampleBlob))))
     ''macronutrientGoals'' =
     JObj [''protein'' \<mapsto> JNum (Finite 150), ''carbs'' \<mapsto> JNum (Finite 250),
           ''fat'' \<mapsto> JNum (Finite 60)]"
    by (rule mp)
  from t [THEN conjunct2, THEN conjunct2, THEN conjunct1] c
  have r2: "read_prop (appState (mount exampleParse ''en-US'' ''en-US'' (Inr (Some exampleBlob))))
     ''chatHistory'' = JArr []"
    by (rule mp)
  from b n have "exampleBlob \<noteq> [] \<and> storedPayload \<noteq> JNull \<and> storedPayload \<noteq> JUndefined"
    by simp
  note kept = t [THEN conjunct2, THEN conjunct2, THEN conjunct2, THEN mp, OF this,
      THEN conjunct1, rule_format]
  from d k
  have r3: "read_prop (appState (mount exampleParse ''en-US'' ''en-US'' (Inr (Some exampleBlob))))
     ''dailyGoal'' = JNum (Finite 1800)"
    by (intro kept conjI)
  from p m r1 c r2 d r3 show ?thesis by (intro conjI)
qed

section \<open>Properties of the typed operations\<close>

subsection \<open>Decimal strings are injective\<close>

lemma digitChar_inj: "a < 10 \<Longrightarrow> b < 10 \<Longrightarrow> digitChar a = digitChar b \<Longrightarrow> a = b"
proof -
  assume a: "a < 10" and b: "b < 10" and e: "digitChar a = digitChar b"
  from a have "a \<in> {0, 1, 2, 3, 4, 5, 6, 7, 8, 9}" by auto
  moreover from b have "b \<in> {0, 1, 2, 3, 4, 5, 6, 7, 8, 9}" by auto
  ultimately show ?thesis using e by (auto simp: digitChar_def)
qed

lemma digitChar_not_minus:
  assumes "d < 10"
  shows "digitChar d \<noteq> CHR ''-''" and "CHR ''-'' \<noteq> digitChar d"
proof -
  from assms have "d \<in> {0, 1, 2, 3, 4, 5, 6, 7, 8, 9}" by auto
  then show "digitChar d \<noteq> CHR ''-''" by (auto simp: digitChar_def)
  then show "CHR ''-'' \<noteq> digitChar d" by simp
qed

lemma natToString_nonempty: "natToString n \<noteq> []" "[] \<noteq> natToString n"
  by (subst natToString.simps, simp)+

lemma natToString_small: "n < 10 \<Longrightarrow> natToString n = [digitChar n]"
  by (subst natToString.simps) simp

lemma natToString_large:
  "\<not> n < 10 \<Longrightarrow> natToString n = natToString (n div 10) @ [digitChar (n mod 10)]"
  by (subst natToString.simps) simp

lemma natToString_inj: "natToString m = natToString n \<Longrightarrow> m = n"
proof (induction m arbitrary: n rule: natToString.induct)
  case (1 m)
  show ?case
  proof (cases "m < 10")
    case m: True
    show ?thesis
    proof (cases "n < 10")
      case True
      with m "1.prems" show ?thesis
        by (simp add: natToString_small digitChar_inj)
    next
      case False
      with m "1.prems" show ?thesis
        by (simp add: natToString_small natToString_large natToString_nonempty)
    qed
  next
    case m: False
    show ?thesis
    proof (cases "n < 10")
      case True
      with m "1.prems" show ?thesis
        by (simp add: natToString_small natToString_large natToString_nonempty)
    next
      case False
      with m "1.prems" have "natToString (m div 10) = natToString (n div 10)"
        and "digitChar (m mod 10) = digitChar (n mod 10)"
        by (simp_all add: natToString_large)
      then have "m div 10 = n div 10" and "m mod 10 = n mod 10"
        using "1.IH" [OF m] by (simp_all add: digitChar_inj)
      then show ?thesis by (metis div_mult_mod_eq)
    qed
  qed
qed

lemma natToString_no_minus: "CHR ''-'' \<notin> set (natToString n)"
proof (induction n rule: natToString.induct)
  case (1 n)
  show ?case
  proof (cases "n < 10")
    case True
    then show ?thesis by (simp add: natToString_small digitChar_not_minus)
  next
    case False
    with 1 show ?thesis by (simp add: natToString_large digitChar_not_minus)
  qed
qed

lemma toString_inj: "toString a = toString b \<Longrightarrow> a = b"
proof -
  assume e: "toString a = toString b"
  have neg: "natToString n \<noteq> CHR ''-'' # xs" for n xs
    using natToString_no_minus [of n] by (metis list.set_intros(1))
  show ?thesis
  proof (cases "a < 0"; cases "b < 0")
    assume "a < 0" "b < 0"
    with e have "nat (- a) = nat (- b)" by (simp add: toString_def natToString_inj)
    with \<open>a < 0\<close> \<open>b < 0\<close> show ?thesis by simp
  next
    assume "a < 0" "\<not> b < 0"
    with e neg show ?thesis by (simp add: toString_def) metis
  next
    assume "\<not> a < 0" "b < 0"
    with e neg show ?thesis by (simp add: toString_def)
  next
    assume "\<not> a < 0" "\<not> b < 0"
    with e have "nat a = nat b" by (simp add: toString_def natToString_inj)
    with \<open>\<not> a < 0\<close> \<open>\<not> b < 0\<close> show ?thesis by simp
  qed
qed

lemma toString_example: "toString 1704067200000 = ''1704067200000''"
  by (simp add: toString_def natToString.simps digitChar_def)

subsection \<open>The state after an operation\<close>

lemma appState_updateState:
  "appState (updateState u s) =
     (case u (appState s) of SameObject \<Rightarrow> appState s | NewObject v \<Rightarrow> v)"
  by (simp add: updateState_eq appState_persistEffect split: returned.split)

text \<open>
  Two updaters queued in one event handler leave the state that they leave when each has an
  event handler of its own; only the number of writes differs.
\<close>

lemma appState_handler_two_updaters:
  "appState (handler [StateUpdater f, StateUpdater g] s) =
     appState (updateState g (updateState f s))"
  by (simp add: handler_def updateState_eq appState_persistEffect split: returned.split)

lemma appState_addFood:
  "appState (addFood d t f s) =
     (appState s)\<lparr>logs := (logs (appState s))(d \<mapsto>
        (getLogForDate s d)\<lparr>food := food (getLogForDate s d) @
           [NewFood.extend f (FoodEntry.fields (toString t))]\<rparr>)\<rparr>"
  by (simp add: addFood_def appState_updateState getLogForDate_def Let_def)

lemma appState_addExercise:
  "appState (addExercise d t e s) =
     (appState s)\<lparr>logs := (logs (appState s))(d \<mapsto>
        (getLogForDate s d)\<lparr>exercise := exercise (getLogForDate s d) @
           [NewExercise.extend e (ExerciseEntry.fields (toString t))]\<rparr>)\<rparr>"
  by (simp add: addExercise_def appState_updateState getLogForDate_def Let_def)

lemma getLogForDate_addFood:
  "getLogForDate (addFood d t f s) d =
     (getLogForDate s d)\<lparr>food := food (getLogForDate s d) @
        [NewFood.extend f (FoodEntry.fields (toString t))]\<rparr>"
  by (simp add: getLogForDate_def [of "addFood d t f s"] appState_addFood)

lemma getLogForDate_addExercise:
  "getLogForDate (addExercise d t e s) d =
     (getLogForDate s d)\<lparr>exercise := exercise (getLogForDate s d) @
        [NewExercise.extend e (ExerciseEntry.fields (toString t))]\<rparr>"
  by (simp add: getLogForDate_def [of "addExercise d t e s"] appState_addExercise)

lemma appState_removeFood:
  "appState (removeFood d i s) =
     (case logs (appState s) d of
        None \<Rightarrow> appState s
      | Some l \<Rightarrow>
          (appState s)\<lparr>logs := (logs (appState s))(d \<mapsto>
             l\<lparr>food := filter (\<lambda>f. food_id f \<noteq> i) (food l)\<rparr>)\<rparr>)"
  by (simp add: removeFood_def appState_updateState Let_def split: option.split)

lemma appState_removeExercise:
  "appState (removeExercise d i s) =
     (case logs (appState s) d of
        None \<Rightarrow> appState s
      | Some l \<Rightarrow>
          (appState s)\<lparr>logs := (logs (appState s))(d \<mapsto>
             l\<lparr>exercise := filter (\<lambda>e. exercise_id e \<noteq> i) (exercise l)\<rparr>)\<rparr>)"
  by (simp add: removeExercise_def appState_updateState Let_def split: option.split)

lemma food_removeFood:
  "food (getLogForDate (removeFood d i s) d) =
     filter (\<lambda>f. food_id f \<noteq> i) (food (getLogForDate s d))"
  by (simp add: getLogForDate_def appState_removeFood split: option.split)

lemma exercise_removeExercise:
  "exercise (getLogForDate (removeExercise d i s) d) =
     filter (\<lambda>e. exercise_id e \<noteq> i) (exercise (getLogForDate s d))"
  by (simp add: getLogForDate_def appState_removeExercise split: option.split)

lemma food_id_extend: "food_id (NewFood.extend f (FoodEntry.fields i)) = i"
  by (simp add: NewFood.defs FoodEntry.defs)

lemma exercise_id_extend: "exercise_id (NewExercise.extend e (ExerciseEntry.fields i)) = i"
  by (simp add: NewExercise.defs ExerciseEntry.defs)

lemma typedStore_no_log: "getLogForDate typedStore d = \<lparr>food = [], exercise = []\<rparr>"
  by (simp add: getLogForDate_def typedStore_def exampleAppState_def)

lemma storeWithApple_log:
  "getLogForDate storeWithApple ''2024-01-01'' =
     \<lparr>food = [NewFood.extend apple (FoodEntry.fields ''1704067200000'')], exercise = []\<rparr>"
  by (simp add: storeWithApple_def getLogForDate_addFood typedStore_no_log toString_example)

subsection \<open>getLogForDate\<close>

text \<open>
  C3. For a date for which \<open>logs\<close> has no entry, \<open>getLogForDate\<close> returns the empty log
  \<^verbatim>\<open>{food: [], exercise: []}\<close>. The function is total and its result is a \<open>DailyLog\<close>:
  it neither fails nor returns \<^verbatim>\<open>null\<close> or \<^verbatim>\<open>undefined\<close>.
\<close>

theorem getLogForDate_missing_date:
  assumes "logs (appState s) D = None"
  shows "getLogForDate s D = \<lparr>food = [], exercise = []\<rparr>"
  using assms by (simp add: getLogForDate_def)

theorem getLogForDate_missing_date_witness:
  "logs (appState typedStore) ''2024-01-01'' = None \<and>
   getLogForDate typedStore ''2024-01-01'' = \<lparr>food = [], exercise = []\<rparr>"
proof -
  have h: "logs (appState typedStore) ''2024-01-01'' = None"
    by (simp add: typedStore_def exampleAppState_def)
  from h getLogForDate_missing_date [OF h] show ?thesis by (rule conjI)
qed

subsection \<open>Adding and removing entries\<close>

text \<open>
  C4, as the claim states it, fails: \<open>removeFood\<close> removes every entry that carries the
  id, and the id is the clock reading. Two foods added in the same millisecond share their id,
  so that removing the second one empties a list that held the first.
\<close>

theorem addFood_same_tick_counterexample:
  "food (getLogForDate storeWithApple ''2024-01-01'') =
     [NewFood.extend apple (FoodEntry.fields ''1704067200000'')] \<and>
   food (getLogForDate
     (removeFood ''2024-01-01'' (toString 1704067200000)
        (addFood ''2024-01-01'' 1704067200000 toast storeWithApple))
     ''2024-01-01'') = []"
  by (simp add: food_removeFood getLogForDate_addFood food_id_extend storeWithApple_log
      toString_example)

text \<open>
  C4, amended. \<open>addFood\<close> gives the new entry the id \<open>toString now\<close>, and \<open>removeFood\<close> with
  that id restores the food list that the date had before exactly when no entry of that list
  carries the id already.
\<close>

theorem addFood_removeFood_roundtrip:
  "food_id (last (food (getLogForDate (addFood d now f s) d))) = toString now \<and>
   (food (getLogForDate (removeFood d (toString now) (addFood d now f s)) d) =
      food (getLogForDate s d)) =
   (toString now \<notin> food_id ` set (food (getLogForDate s d)))"
proof -
  have "food_id (last (food (getLogForDate (addFood d now f s) d))) = toString now"
    by (simp add: getLogForDate_addFood food_id_extend)
  moreover have "food (getLogForDate (removeFood d (toString now) (addFood d now f s)) d) =
      filter (\<lambda>x. food_id x \<noteq> toString now) (food (getLogForDate s d))"
    by (simp add: food_removeFood getLogForDate_addFood food_id_extend)
  moreover have "(\<forall>x\<in>set (food (getLogForDate s d)). food_id x \<noteq> toString now) =
      (toString now \<notin> food_id ` set (food (getLogForDate s d)))"
    by force
  ultimately show ?thesis by (simp add: filter_id_conv)
qed

theorem addFood_removeFood_roundtrip_witness:
  "toString 1704067200000 \<notin> food_id ` set (food (getLogForDate typedStore ''2024-01-01'')) \<and>
   food (getLogForDate
     (removeFood ''2024-01-01'' (toString 1704067200000)
        (addFood ''2024-01-01'' 1704067200000 apple typedStore))
     ''2024-01-01'') =
   food (getLogForDate typedStore ''2024-01-01'')"
proof -
  have h: "toString 1704067200000 \<notin>
      food_id ` set (food (getLogForDate typedStore ''2024-01-01''))"
    by (simp add: typedStore_no_log)
  note r = addFood_removeFood_roundtrip
      [where s = typedStore and d = "''2024-01-01''" and now = 1704067200000 and f = apple,
       THEN conjunct2, THEN iffD2, OF h]
  from h r show ?thesis by (rule conjI)
qed

text \<open>
  C5, as the claim states it, fails: two exercises added in the same millisecond have the same
  id.
\<close>

theorem addExercise_same_tick_counterexample:
  "map exercise_id
     (exercise (getLogForDate
        (addExercise ''2024-01-01'' 1704067200000 yoga
           (addExercise ''2024-01-01'' 1704067200000 running typedStore))
        ''2024-01-01'')) =
   [''1704067200000'', ''1704067200000'']"
  by (simp add: getLogForDate_addExercise exercise_id_extend typedStore_no_log
      toString_example)

text \<open>
  C5, amended. Two \<open>addExercise\<close> calls on a date append their two entries to the exercise
  list of that date in call order, after the entries it had, and the ids of the two entries
  differ exactly when the two clock readings differ.
\<close>

theorem addExercise_twice:
  "exercise (getLogForDate (addExercise d t2 e2 (addExercise d t1 e1 s)) d) =
     exercise (getLogForDate s d) @
       [NewExercise.extend e1 (ExerciseEntry.fields (toString t1)),
        NewExercise.extend e2 (ExerciseEntry.fields (toString t2))] \<and>
   (exercise_id (NewExercise.extend e1 (ExerciseEntry.fields (toString t1))) \<noteq>
      exercise_id (NewExercise.extend e2 (ExerciseEntry.fields (toString t2)))) =
   (t1 \<noteq> t2)"
  using toString_inj [of t1 t2]
  by (auto simp: getLogForDate_addExercise exercise_id_extend)

theorem addExercise_twice_witness:
  "exercise_id (NewExercise.extend running (ExerciseEntry.fields (toString 1704067200000))) \<noteq>
   exercise_id (NewExercise.extend yoga (ExerciseEntry.fields (toString 1704067200001)))"
proof -
  have h: "(1704067200000 :: int) \<noteq> 1704067200001" by simp
  from addExercise_twice
      [where ?t1.0 = 1704067200000 and ?t2.0 = 1704067200001 and ?e1.0 = running and ?e2.0 = yoga,
       THEN conjunct2, THEN iffD2, OF h]
  show ?thesis .
qed

text \<open>
  C8. \<open>removeFood\<close> leaves of the food list of the active date the entries whose id is not
  the given one, and touches neither the exercise list nor another date. Where the date has
  no log the store is returned as it is; where no entry of the list has the id, the state
  after the call equals the state before it (it is a new object with the same content).
  \<open>removeExercise\<close> does the same on the exercise list.
\<close>

theorem removeFood_noop:
  "(logs (appState s) d = None \<longrightarrow> removeFood d i s = s \<and> removeExercise d i s = s) \<and>
   (i \<notin> food_id ` set (food (getLogForDate s d)) \<longrightarrow>
      appState (removeFood d i s) = appState s) \<and>
   (i \<notin> exercise_id ` set (exercise (getLogForDate s d)) \<longrightarrow>
      appState (removeExercise d i s) = appState s) \<and>
   food (getLogForDate (removeFood d i s) d) =
     filter (\<lambda>f. food_id f \<noteq> i) (food (getLogForDate s d)) \<and>
   exercise (getLogForDate (removeFood d i s) d) = exercise (getLogForDate s d) \<and>
   exercise (getLogForDate (removeExercise d i s) d) =
     filter (\<lambda>e. exercise_id e \<noteq> i) (exercise (getLogForDate s d)) \<and>
   food (getLogForDate (removeExercise d i s) d) = food (getLogForDate s d) \<and>
   (d' \<noteq> d \<longrightarrow>
      getLogForDate (removeFood d i s) d' = getLogForDate s d' \<and>
      getLogForDate (removeExercise d i s) d' = getLogForDate s d')"
proof -
  have none: "removeFood d i s = s \<and> removeExercise d i s = s" if "logs (appState s) d = None"
    using that by (simp add: removeFood_def removeExercise_def updateState_eq)
  have f: "appState (removeFood d i s) = appState s"
    if "i \<notin> food_id ` set (food (getLogForDate s d))"
  proof (cases "logs (appState s) d")
    case None
    then show ?thesis by (simp add: appState_removeFood)
  next
    case (Some l)
    with that have "filter (\<lambda>f. food_id f \<noteq> i) (food l) = food l"
      by (auto simp: getLogForDate_def filter_id_conv)
    with Some show ?thesis by (simp add: appState_removeFood map_upd_triv)
  qed
  have e: "appState (removeExercise d i s) = appState s"
    if "i \<notin> exercise_id ` set (exercise (getLogForDate s d))"
  proof (cases "logs (appState s) d")
    case None
    then show ?thesis by (simp add: appState_removeExercise)
  next
    case (Some l)
    with that have "filter (\<lambda>e. exercise_id e \<noteq> i) (exercise l) = exercise l"
      by (auto simp: getLogForDate_def filter_id_conv)
    with Some show ?thesis by (simp add: appState_removeExercise map_upd_triv)
  qed
  have other: "exercise (getLogForDate (removeFood d i s) d) = exercise (getLogForDate s d)"
    "food (getLogForDate (removeExercise d i s) d) = food (getLogForDate s d)"
    by (simp_all add: getLogForDate_def appState_removeFood appState_removeExercise
        split: option.split)
  have dates: "getLogForDate (removeFood d i s) d' = getLogForDate s d' \<and>
      getLogForDate (removeExercise d i s) d' = getLogForDate s d'" if "d' \<noteq> d"
    using that
    by (simp add: getLogForDate_def appState_removeFood appState_removeExercise
        split: option.split)
  from none f e other dates show ?thesis
    by (simp add: food_removeFood exercise_removeExercise)
qed

theorem removeFood_noop_witness:
  "logs (appState typedStore) ''2024-01-01'' = None \<and>
   removeFood ''2024-01-01'' ''1704067200000'' typedStore = typedStore \<and>
   ''17'' \<notin> food_id ` set (food (getLogForDate storeWithApple ''2024-01-01'')) \<and>
   appState (removeFood ''2024-01-01'' ''17'' storeWithApple) = appState storeWithApple \<and>
   food (getLogForDate (removeFood ''2024-01-01'' ''1704067200000'' storeWithApple)
     ''2024-01-01'') = []"
proof -
  have h1: "logs (appState typedStore) ''2024-01-01'' = None"
    by (simp add: typedStore_def exampleAppState_def)
  have h2: "''17'' \<notin> food_id ` set (food (getLogForDate storeWithApple ''2024-01-01''))"
    by (simp add: storeWithApple_log food_id_extend)
  have h3: "filter (\<lambda>f. food_id f \<noteq> ''1704067200000'')
      (food (getLogForDate storeWithApple ''2024-01-01'')) = []"
    by (simp add: storeWithApple_log food_id_extend)
  from removeFood_noop [where s = typedStore and d = "''2024-01-01''" and i = "''1704067200000''"]
       h1
  have "removeFood ''2024-01-01'' ''1704067200000'' typedStore = typedStore" by blast
  moreover from removeFood_noop [where s = storeWithApple and d = "''2024-01-01''" and i = "''17''"] h2
  have "appState (removeFood ''2024-01-01'' ''17'' storeWithApple) = appState storeWithApple"
    by blast
  moreover from removeFood_noop
         [where s = storeWithApple and d = "''2024-01-01''" and i = "''1704067200000''"] h3
  have "food (getLogForDate (removeFood ''2024-01-01'' ''1704067200000'' storeWithApple)
     ''2024-01-01'') = []"
    by metis
  ultimately show ?thesis using h1 h2 by blast
qed

subsection \<open>clearChatHistory\<close>

text \<open>
  C9. Clearing the chat history twice gives the state that clearing it once gives: the state
  before, with an empty \<open>chatHistory\<close> and every other field as it was; the same holds for
  any number of calls in a row. (Each call builds a new object, so each call is followed by
  a write of that state.)
\<close>

theorem clearChatHistory_idempotent:
  "appState (clearChatHistory (clearChatHistory s)) = appState (clearChatHistory s) \<and>
   appState (clearChatHistory s) = (appState s)\<lparr>chatHistory := []\<rparr> \<and>
   appState ((clearChatHistory ^^ Suc n) s) = appState (clearChatHistory s)"
proof -
  have once: "appState (clearChatHistory t) = (appState t)\<lparr>chatHistory := []\<rparr>" for t
    by (simp add: clearChatHistory_def appState_updateState)
  have many: "appState ((clearChatHistory ^^ Suc n) s) = (appState s)\<lparr>chatHistory := []\<rparr>"
  proof (induction n)
    case 0
    show ?case by (simp add: once)
  next
    case (Suc n)
    have "appState ((clearChatHistory ^^ Suc (Suc n)) s) =
        (appState ((clearChatHistory ^^ Suc n) s))\<lparr>chatHistory := []\<rparr>"
      by (simp add: once)
    also have "\<dots> = (appState s)\<lparr>chatHistory := []\<rparr>"
      by (simp only: Suc.IH) simp
    finally show ?case .
  qed
  have "appState (clearChatHistory (clearChatHistory s)) = appState (clearChatHistory s)"
    by (simp add: once)
  with once [of s] many show ?thesis by simp
qed

end
